theory Spec2Isabelle
  imports Main
begin

section \<open>The kldiv\_loss operator: shape inference, kernel keys, gradient wiring\<close>

text \<open>
  A shallow embedding of \<^verbatim>\<open>paddle/fluid/operators/kldiv_loss_op.cc\<close>. The operator classes
  of that file talk to the framework through abstract interfaces
  (\<^verbatim>\<open>InferShapeContext\<close>, \<^verbatim>\<open>ExecutionContext\<close>, the gradient maker's base class); an
  interface is a record of what its methods return, and a method that writes returns the
  updated record. Every \<^verbatim>\<open>PADDLE_ENFORCE\<close> that throws is an \<open>Inl\<close> result.
\<close>

subsection \<open>Errors\<close>

text \<open>
  The three \<^verbatim>\<open>platform::errors::InvalidArgument\<close> messages of the forward
  \<^verbatim>\<open>InferShape\<close>, each with the arguments its format string receives:
  \<^item> \<open>RankMsg r\<^sub>x r\<^sub>t\<close>: "Input(X) rank and Input(Target) rank should be same, but received
    X rank(\%d) != Target rank(\%d)";
  \<^item> \<open>DimMsg i x i t\<close>: "Input(X) and Input(Target) should in same shape. but received
    X dimension[\%d](\%d) != Target dimension[\%d](\%d)";
  \<^item> \<open>ReductionMsg\<close>: "Attr(reduction) can only be 'none'|'batchmean'|'sum'|'mean'.".
\<close>

datatype message =
    RankMsg int int
  | DimMsg int int int int
  | ReductionMsg

text \<open>
  \<open>InOutCheckFailed role name op\<close> is the failure of
  \<^verbatim>\<open>OP_INOUT_CHECK(expr, role, name, op)\<close>, and \<open>AttrGetFailed name\<close> the failure of
  \<^verbatim>\<open>Attrs().Get<std::string>(name)\<close> on a map that has no string under \<open>name\<close>.
\<close>

datatype error =
    InOutCheckFailed string string string
  | InvalidArgument message
  | AttrGetFailed string

text \<open>
  The failure taxonomy of the specification (its section on error handling), and the
  class it gives to each error of the code: an absent slot, a rank disagreement and a
  dimension disagreement are a ShapeMismatch; a bad attribute is a SchemaViolation.
\<close>

datatype failure = SchemaViolation | ShapeMismatch | NoKernelFound

fun failure_class :: "error \<Rightarrow> failure" where
  "failure_class (InOutCheckFailed role name op) = ShapeMismatch"
| "failure_class (InvalidArgument (RankMsg rx rt)) = ShapeMismatch"
| "failure_class (InvalidArgument (DimMsg i x j t)) = ShapeMismatch"
| "failure_class (InvalidArgument ReductionMsg) = SchemaViolation"
| "failure_class (AttrGetFailed name) = SchemaViolation"

subsection \<open>Attributes and the shape-inference context\<close>

text \<open>
  An attribute value is a typed value; the floating-point alternatives of the framework's
  variant play no part in this operator and are left out.
\<close>

datatype attribute =
    StringAttr string
  | IntAttr int
  | BoolAttr bool
  | StringsAttr "string list"
  | IntsAttr "int list"
  | BoolsAttr "bool list"

type_synonym AttributeMap = "string \<rightharpoonup> attribute"

type_synonym DDim = "int list"

text \<open>
  \<^verbatim>\<open>framework::InferShapeContext\<close> is an abstract class of the framework; the record
  holds what its methods answer to the operator. \<open>OutputDim\<close> is the shape last written to
  each output by \<^verbatim>\<open>SetOutputDim\<close>; both call sites of \<^verbatim>\<open>SetOutputDim\<close> in the operator
  file come after a successful \<^verbatim>\<open>HasOutput\<close> on the same slot.
\<close>

record InferShapeContext =
  HasInput :: "string \<Rightarrow> bool"
  HasOutput :: "string \<Rightarrow> bool"
  GetInputDim :: "string \<Rightarrow> DDim"
  IsRuntime :: bool
  Attrs :: AttributeMap
  OutputDim :: "string \<rightharpoonup> DDim"

definition SetOutputDim :: "InferShapeContext \<Rightarrow> string \<Rightarrow> DDim \<Rightarrow> InferShapeContext" where
  "SetOutputDim ctx name dim = ctx\<lparr>OutputDim := (OutputDim ctx)(name \<mapsto> dim)\<rparr>"

text \<open>
  Modelled from the spec: the macro \<^verbatim>\<open>OP_INOUT_CHECK\<close> is declared in the framework,
  not in the operator file. Shape inference must fail when a required slot is absent from
  the context; the failure carries the role, the slot name and the operator name the call
  site passes.
\<close>

definition OP_INOUT_CHECK :: "bool \<Rightarrow> string \<Rightarrow> string \<Rightarrow> string \<Rightarrow> error + unit" where
  "OP_INOUT_CHECK expr role name op =
     (if expr then Inr () else Inl (InOutCheckFailed role name op))"

text \<open>
  Modelled from the spec: \<^verbatim>\<open>AttrReader::Get<std::string>\<close> is declared in the
  framework, not in the operator file. A missing attribute, or one whose type is not the
  requested one, is a failure.
\<close>

definition Get_string :: "AttributeMap \<Rightarrow> string \<Rightarrow> error + string" where
  "Get_string attrs name =
     (case attrs name of
        Some (StringAttr s) \<Rightarrow> Inr s
      | _ \<Rightarrow> Inl (AttrGetFailed name))"

text \<open>\<^verbatim>\<open>framework::GradVarName\<close>: the gradient of variable \<open>n\<close> is named \<open>n@GRAD\<close>
  (the file itself reports the slot \<^verbatim>\<open>GradVarName("Loss")\<close> as "Loss@GRAD").\<close>

definition GradVarName :: "string \<Rightarrow> string" where
  "GradVarName name = name @ ''@GRAD''"

subsection \<open>KLDivLossOp::InferShape\<close>

text \<open>
  The loop over the dimensions, from index \<open>i\<close> on. It is entered only after the rank
  check, so \<open>dim_target ! i\<close> is in range whenever \<open>dim_x ! i\<close> is.
\<close>

function dim_loop :: "bool \<Rightarrow> DDim \<Rightarrow> DDim \<Rightarrow> nat \<Rightarrow> error + unit" where
  "dim_loop runtime dim_x dim_target i =
     (if i < length dim_x then
        (if runtime \<or> (dim_x ! i > 0 \<and> dim_target ! i > 0) then
           (if dim_x ! i = dim_target ! i then dim_loop runtime dim_x dim_target (Suc i)
            else Inl (InvalidArgument
                        (DimMsg (int i) (dim_x ! i) (int i) (dim_target ! i))))
         else dim_loop runtime dim_x dim_target (Suc i))
      else Inr ())"
  by pat_completeness auto
termination
  by (relation "measure (\<lambda>(runtime, dim_x, dim_target, i). length dim_x - i)") auto

declare dim_loop.simps [simp del]

definition KLDivLossOp_InferShape :: "InferShapeContext \<Rightarrow> error + InferShapeContext" where
  "KLDivLossOp_InferShape ctx =
     (case OP_INOUT_CHECK (HasInput ctx ''X'') ''Input'' ''X'' ''KLDivLoss'' of
        Inl e \<Rightarrow> Inl e
      | Inr _ \<Rightarrow>
     (case OP_INOUT_CHECK (HasInput ctx ''Target'') ''Input'' ''Target'' ''KLDivLoss'' of
        Inl e \<Rightarrow> Inl e
      | Inr _ \<Rightarrow>
     (case OP_INOUT_CHECK (HasOutput ctx ''Loss'') ''Output'' ''Loss'' ''KLDivLoss'' of
        Inl e \<Rightarrow> Inl e
      | Inr _ \<Rightarrow>
     (let dim_x = GetInputDim ctx ''X'';
          dim_target = GetInputDim ctx ''Target''
      in if int (length dim_x) \<noteq> int (length dim_target)
         then Inl (InvalidArgument
                     (RankMsg (int (length dim_x)) (int (length dim_target))))
         else
     (case dim_loop (IsRuntime ctx) dim_x dim_target 0 of
        Inl e \<Rightarrow> Inl e
      | Inr _ \<Rightarrow>
     (case Get_string (Attrs ctx) ''reduction'' of
        Inl e \<Rightarrow> Inl e
      | Inr reduction \<Rightarrow>
     (let reduction_valid =
            (''mean'' = reduction \<or> ''sum'' = reduction \<or>
             ''batchmean'' = reduction \<or> ''none'' = reduction)
      in if reduction_valid \<noteq> True then Inl (InvalidArgument ReductionMsg)
         else if ''none'' = reduction then Inr (SetOutputDim ctx ''Loss'' dim_x)
         else Inr (SetOutputDim ctx ''Loss'' [1]))))))))"

subsection \<open>KLDivLossOpGrad::InferShape\<close>

definition KLDivLossOpGrad_InferShape :: "InferShapeContext \<Rightarrow> error + InferShapeContext" where
  "KLDivLossOpGrad_InferShape ctx =
     (case OP_INOUT_CHECK (HasInput ctx ''X'') ''Input'' ''X'' ''KLDivLossGrad'' of
        Inl e \<Rightarrow> Inl e
      | Inr _ \<Rightarrow>
     (case OP_INOUT_CHECK (HasInput ctx ''Target'') ''Input'' ''Target'' ''KLDivLossGrad'' of
        Inl e \<Rightarrow> Inl e
      | Inr _ \<Rightarrow>
     (case OP_INOUT_CHECK (HasInput ctx (GradVarName ''Loss'')) ''Input'' ''Loss@GRAD''
             ''KLDivLossGrad'' of
        Inl e \<Rightarrow> Inl e
      | Inr _ \<Rightarrow>
     (let dim_x = GetInputDim ctx ''X''
      in if HasOutput ctx (GradVarName ''X'')
         then Inr (SetOutputDim ctx (GradVarName ''X'') dim_x)
         else Inr ctx))))"

subsection \<open>Kernel types and the registered kernels\<close>

datatype place = CPUPlace | CUDAPlace nat | CUDAPinnedPlace

datatype data_type = BOOL | INT16 | INT32 | INT64 | FP16 | FP32 | FP64

record OpKernelType =
  kernel_data_type :: data_type
  kernel_place :: place

text \<open>
  \<^verbatim>\<open>framework::ExecutionContext\<close>, as far as the operator reads it: the place, and the
  data type \<^verbatim>\<open>OperatorWithKernel::IndicateVarDataType\<close> finds for the variable of a slot.
\<close>

record ExecutionContext =
  GetPlace :: place
  IndicateVarDataType :: "string \<Rightarrow> data_type"

definition KLDivLossOp_GetExpectedKernelType :: "ExecutionContext \<Rightarrow> OpKernelType" where
  "KLDivLossOp_GetExpectedKernelType ctx =
     \<lparr>kernel_data_type = IndicateVarDataType ctx ''X'', kernel_place = GetPlace ctx\<rparr>"

definition KLDivLossOpGrad_GetExpectedKernelType :: "ExecutionContext \<Rightarrow> OpKernelType" where
  "KLDivLossOpGrad_GetExpectedKernelType ctx =
     \<lparr>kernel_data_type = IndicateVarDataType ctx (GradVarName ''Loss''), kernel_place = GetPlace ctx\<rparr>"

text \<open>
  The kernels are class templates over the device context and the element type; the table
  below lists the instances the file registers, under the operator type they are
  registered for.
\<close>

datatype device_context = CPUDeviceContext | CUDADeviceContext

datatype element_type = float | double | float16

datatype kernel =
    KLDivLossKernel device_context element_type
  | KLDivLossGradKernel device_context element_type

fun proto_type :: "element_type \<Rightarrow> data_type" where
  "proto_type float = FP32"
| "proto_type double = FP64"
| "proto_type float16 = FP16"

fun kernel_element_type :: "kernel \<Rightarrow> element_type" where
  "kernel_element_type (KLDivLossKernel dev t) = t"
| "kernel_element_type (KLDivLossGradKernel dev t) = t"

type_synonym KernelKey = "string \<times> place \<times> data_type"

text \<open>
  Modelled from the spec: the macro \<^verbatim>\<open>REGISTER_OP_CPU_KERNEL\<close> is declared in the
  framework, not in the operator file. It registers each listed kernel under the key made
  of the operator type, the CPU device and the kernel's data type.
\<close>

definition REGISTER_OP_CPU_KERNEL :: "string \<Rightarrow> kernel list \<Rightarrow> (KernelKey \<times> kernel) list" where
  "REGISTER_OP_CPU_KERNEL op_name kernels =
     map (\<lambda>k. ((op_name, CPUPlace, proto_type (kernel_element_type k)), k)) kernels"

definition AllOpKernels :: "(KernelKey \<times> kernel) list" where
  "AllOpKernels =
     REGISTER_OP_CPU_KERNEL ''kldiv_loss''
       [KLDivLossKernel CPUDeviceContext float, KLDivLossKernel CPUDeviceContext double] @
     REGISTER_OP_CPU_KERNEL ''kldiv_loss_grad''
       [KLDivLossGradKernel CPUDeviceContext float,
        KLDivLossGradKernel CPUDeviceContext double]"

text \<open>
  Modelled from the spec: the kernel dispatch belongs to the framework, not to the
  operator file.
  The key is the operator type of the node, the device of the execution context and the
  data type of the expected kernel type; the kernel registered under that key is looked
  up, and its absence is the failure NoKernelFound. Nothing else is tried.
\<close>

definition KernelKey_of :: "string \<Rightarrow> OpKernelType \<Rightarrow> KernelKey" where
  "KernelKey_of op_name kt = (op_name, kernel_place kt, kernel_data_type kt)"

definition dispatch :: "string \<Rightarrow> OpKernelType \<Rightarrow> failure + kernel" where
  "dispatch op_name kt =
     (case map_of AllOpKernels (KernelKey_of op_name kt) of
        None \<Rightarrow> Inl NoKernelFound
      | Some k \<Rightarrow> Inr k)"

definition dispatch_kldiv_loss :: "ExecutionContext \<Rightarrow> failure + kernel" where
  "dispatch_kldiv_loss ctx = dispatch ''kldiv_loss'' (KLDivLossOp_GetExpectedKernelType ctx)"

subsection \<open>The gradient maker\<close>

type_synonym VariableNameMap = "string \<rightharpoonup> string list"

text \<open>
  The operator description \<^verbatim>\<open>Apply\<close> fills, and the four setters it calls; each setter
  replaces what it names and leaves the rest.
\<close>

record OpDesc =
  Type :: string
  Inputs :: VariableNameMap
  Outputs :: VariableNameMap
  AttrMap :: AttributeMap

definition SetType :: "string \<Rightarrow> OpDesc \<Rightarrow> OpDesc" where
  "SetType t op = op\<lparr>Type := t\<rparr>"

definition SetInput :: "string \<Rightarrow> string list \<Rightarrow> OpDesc \<Rightarrow> OpDesc" where
  "SetInput name args op = op\<lparr>Inputs := (Inputs op)(name \<mapsto> args)\<rparr>"

definition SetOutput :: "string \<Rightarrow> string list \<Rightarrow> OpDesc \<Rightarrow> OpDesc" where
  "SetOutput name args op = op\<lparr>Outputs := (Outputs op)(name \<mapsto> args)\<rparr>"

definition SetAttrMap :: "AttributeMap \<Rightarrow> OpDesc \<Rightarrow> OpDesc" where
  "SetAttrMap attrs op = op\<lparr>AttrMap := attrs\<rparr>"

text \<open>
  What \<^verbatim>\<open>Apply\<close> reads from its base class \<^verbatim>\<open>SingleGradOpMaker\<close>: the variables of a
  forward input slot, the gradient variables of a forward output slot and of a forward
  input slot, and the forward attributes.
\<close>

record GradOpMaker =
  Input :: "string \<Rightarrow> string list"
  OutputGrad :: "string \<Rightarrow> string list"
  InputGrad :: "string \<Rightarrow> string list"
  ForwardAttrs :: AttributeMap

definition KLDivLossOpGradMaker_Apply :: "GradOpMaker \<Rightarrow> OpDesc \<Rightarrow> OpDesc" where
  "KLDivLossOpGradMaker_Apply this op =
     (let op = SetType ''kldiv_loss_grad'' op;
          op = SetInput ''X'' (Input this ''X'') op;
          op = SetInput ''Target'' (Input this ''Target'') op;
          op = SetInput (GradVarName ''Loss'') (OutputGrad this ''Loss'') op;
          op = SetAttrMap (ForwardAttrs this) op;
          op = SetOutput (GradVarName ''X'') (InputGrad this ''X'') op
      in op)"

text \<open>
  \<^verbatim>\<open>DECLARE_NO_NEED_BUFFER_VARS_INFERER(KLDivLossGradNoNeedBufferVarInference, "X")\<close>:
  the slots of the backward operator whose contents need not be kept.
\<close>

definition KLDivLossGradNoNeedBufferVarInference :: "string set" where
  "KLDivLossGradNoNeedBufferVarInference = {''X''}"

text \<open>
  \<^verbatim>\<open>REGISTER_OPERATOR(kldiv_loss_grad, ops::KLDivLossOpGrad,
  ops::KLDivLossGradNoNeedBufferVarInference)\<close> attaches that inferer to the backward
  operator; the forward operator is registered with none.
\<close>

definition NoNeedBufferVars :: "string \<Rightarrow> string set" where
  "NoNeedBufferVars op_name =
     (if op_name = ''kldiv_loss_grad'' then KLDivLossGradNoNeedBufferVarInference else {})"

text \<open>
  Modelled from the spec: the base class of the gradient maker belongs to the framework,
  not to the operator file. Building the gradient of a forward node, given the gradient variable of each
  forward output, binds the backward node's value inputs to the forward node's variables,
  its gradient-of-output input to the caller's entry for that output, and its
  gradient-of-input outputs to the gradient names of the forward inputs; the forward
  attributes are handed over. One backward node is created, filled by \<^verbatim>\<open>Apply\<close>.
\<close>

definition slot_args :: "VariableNameMap \<Rightarrow> string \<Rightarrow> string list" where
  "slot_args m name = (case m name of None \<Rightarrow> [] | Some args \<Rightarrow> args)"

definition maker_of :: "OpDesc \<Rightarrow> (string \<rightharpoonup> string) \<Rightarrow> GradOpMaker" where
  "maker_of fwd outputGradientNames =
     \<lparr>Input = slot_args (Inputs fwd),
      OutputGrad = (\<lambda>name. case outputGradientNames name of None \<Rightarrow> [] | Some g \<Rightarrow> [g]),
      InputGrad = (\<lambda>name. map GradVarName (slot_args (Inputs fwd) name)),
      ForwardAttrs = AttrMap fwd\<rparr>"

definition new_op :: OpDesc where
  "new_op = \<lparr>Type = [], Inputs = Map.empty, Outputs = Map.empty, AttrMap = Map.empty\<rparr>"

definition buildGradient :: "OpDesc \<Rightarrow> (string \<rightharpoonup> string) \<Rightarrow> OpDesc list" where
  "buildGradient fwd outputGradientNames =
     [KLDivLossOpGradMaker_Apply (maker_of fwd outputGradientNames) new_op]"

subsection \<open>Concrete nodes\<close>

text \<open>
  A forward node as shape inference sees it: inputs X and Target and output Loss bound,
  with the given shapes, attributes and phase (graph construction or execution).
\<close>

definition node_ctx :: "DDim \<Rightarrow> DDim \<Rightarrow> AttributeMap \<Rightarrow> bool \<Rightarrow> InferShapeContext" where
  "node_ctx dim_x dim_target attrs runtime =
     \<lparr>HasInput = (\<lambda>n. n = ''X'' \<or> n = ''Target''),
      HasOutput = (\<lambda>n. n = ''Loss''),
      GetInputDim = (\<lambda>n. if n = ''X'' then dim_x else if n = ''Target'' then dim_target else []),
      IsRuntime = runtime,
      Attrs = attrs,
      OutputDim = Map.empty\<rparr>"

text \<open>A backward node: inputs X, Target and Loss@GRAD bound, output X@GRAD bound or not.\<close>

definition grad_node_ctx :: "DDim \<Rightarrow> bool \<Rightarrow> InferShapeContext" where
  "grad_node_ctx dim_x with_x_grad =
     \<lparr>HasInput = (\<lambda>n. n = ''X'' \<or> n = ''Target'' \<or> n = ''Loss@GRAD''),
      HasOutput = (\<lambda>n. with_x_grad \<and> n = ''X@GRAD''),
      GetInputDim = (\<lambda>n. if n = ''X'' then dim_x else []),
      IsRuntime = False,
      Attrs = Map.empty,
      OutputDim = Map.empty\<rparr>"

text \<open>An execution on the given place in which every variable but X has data type \<open>t\<close>.\<close>

definition exec_ctx :: "place \<Rightarrow> data_type \<Rightarrow> data_type \<Rightarrow> ExecutionContext" where
  "exec_ctx p tx t =
     \<lparr>GetPlace = p, IndicateVarDataType = (\<lambda>n. if n = ''X'' then tx else t)\<rparr>"

text \<open>The forward node of the gradient scenario: each slot bound to one variable.\<close>

definition forward_node :: "AttributeMap \<Rightarrow> OpDesc" where
  "forward_node attrs =
     \<lparr>Type = ''kldiv_loss'',
      Inputs = [''X'' \<mapsto> [''X''], ''Target'' \<mapsto> [''Target'']],
      Outputs = [''Loss'' \<mapsto> [''Loss'']],
      AttrMap = attrs\<rparr>"

subsection \<open>The dimension loop\<close>

text \<open>
  The loop passes exactly when every compared pair agrees, where index \<open>j\<close> is compared
  at execution time, and at construction time when both sizes are positive.
\<close>

lemma dim_loop_ok_iff:
  "dim_loop rt dx dt i = Inr () \<longleftrightarrow>
     (\<forall>j. i \<le> j \<and> j < length dx \<longrightarrow> (rt \<or> (0 < dx ! j \<and> 0 < dt ! j)) \<longrightarrow> dx ! j = dt ! j)"
proof (induction rt dx dt i rule: dim_loop.induct)
  case (1 rt dx dt i)
  show ?case
  proof (cases "i < length dx")
    case False
    then show ?thesis by (simp add: dim_loop.simps [of rt dx dt i])
  next
    case inside: True
    have split: "\<And>P. (\<forall>j. i \<le> j \<and> j < length dx \<longrightarrow> P j) \<longleftrightarrow>
                 (P i \<and> (\<forall>j. Suc i \<le> j \<and> j < length dx \<longrightarrow> P j))"
      using inside by (metis Suc_leI le_neq_implies_less order_refl Suc_leD)
    show ?thesis
    proof (cases "rt \<or> (0 < dx ! i \<and> 0 < dt ! i)")
      case compared: True
      show ?thesis
      proof (cases "dx ! i = dt ! i")
        case True
        with inside compared "1.IH"(1) show ?thesis
          by (subst dim_loop.simps, subst split) simp
      next
        case False
        with inside compared show ?thesis
          by (subst dim_loop.simps, subst split) simp
      qed
    next
      case False
      with inside "1.IH"(2) show ?thesis
        by (subst dim_loop.simps, subst split) simp
    qed
  qed
qed

lemma dim_loop_first_mismatch:
  "i \<le> j \<Longrightarrow> j < length dx \<Longrightarrow> rt \<or> (0 < dx ! j \<and> 0 < dt ! j) \<Longrightarrow> dx ! j \<noteq> dt ! j \<Longrightarrow>
   (\<forall>k. i \<le> k \<and> k < j \<longrightarrow> (rt \<or> (0 < dx ! k \<and> 0 < dt ! k)) \<longrightarrow> dx ! k = dt ! k) \<Longrightarrow>
   dim_loop rt dx dt i = Inl (InvalidArgument (DimMsg (int j) (dx ! j) (int j) (dt ! j)))"
proof (induction rt dx dt i rule: dim_loop.induct)
  case (1 rt dx dt i)
  show ?case
  proof (cases "i = j")
    case True
    with "1.prems" show ?thesis by (subst dim_loop.simps) auto
  next
    case False
    with "1.prems" have lt: "i < j" and inside: "i < length dx" and next_le: "Suc i \<le> j"
      by simp_all
    have rest: "\<forall>k. Suc i \<le> k \<and> k < j \<longrightarrow> (rt \<or> (0 < dx ! k \<and> 0 < dt ! k)) \<longrightarrow> dx ! k = dt ! k"
      using "1.prems"(5) by simp
    have here: "(rt \<or> (0 < dx ! i \<and> 0 < dt ! i)) \<longrightarrow> dx ! i = dt ! i"
      using "1.prems"(5) lt by simp
    show ?thesis
    proof (cases "rt \<or> (0 < dx ! i \<and> 0 < dt ! i)")
      case True
      with here have eq: "dx ! i = dt ! i" by simp
      from "1.IH"(1) [OF inside True eq next_le "1.prems"(2,3,4) rest] inside True eq
      show ?thesis by (subst dim_loop.simps) auto
    next
      case False
      from "1.IH"(2) [OF inside False next_le "1.prems"(2,3,4) rest] inside False
      show ?thesis by (subst dim_loop.simps) auto
    qed
  qed
qed

lemma dim_loop_error:
  "dim_loop rt dx dt i = Inl e \<Longrightarrow>
   \<exists>j. i \<le> j \<and> j < length dx \<and> (rt \<or> (0 < dx ! j \<and> 0 < dt ! j)) \<and> dx ! j \<noteq> dt ! j \<and>
       e = InvalidArgument (DimMsg (int j) (dx ! j) (int j) (dt ! j))"
proof (induction rt dx dt i rule: dim_loop.induct)
  case (1 rt dx dt i)
  from "1.prems" have inside: "i < length dx"
    by (subst (asm) dim_loop.simps) (simp split: if_splits)
  show ?case
  proof (cases "rt \<or> (0 < dx ! i \<and> 0 < dt ! i)")
    case compared: True
    show ?thesis
    proof (cases "dx ! i = dt ! i")
      case True
      with "1.prems" inside compared have "dim_loop rt dx dt (Suc i) = Inl e"
        by (subst (asm) dim_loop.simps) simp
      from "1.IH"(1) [OF inside compared True this] show ?thesis
        using Suc_leD by blast
    next
      case False
      with "1.prems" inside compared
      have "e = InvalidArgument (DimMsg (int i) (dx ! i) (int i) (dt ! i))"
        by (subst (asm) dim_loop.simps) auto
      with inside compared False show ?thesis by blast
    qed
  next
    case False
    with "1.prems" inside have "dim_loop rt dx dt (Suc i) = Inl e"
      by (subst (asm) dim_loop.simps) simp
    from "1.IH"(2) [OF inside False this] show ?thesis
      using Suc_leD by blast
  qed
qed

subsection \<open>The forward shape inference, check by check\<close>

text \<open>
  With the three slots present, the result is decided by the rank check, the dimension
  loop and the reduction check, in that order; with one absent, by the first absent slot.
\<close>

lemma InferShape_after_presence:
  assumes "HasInput ctx ''X''" "HasInput ctx ''Target''" "HasOutput ctx ''Loss''"
  shows "KLDivLossOp_InferShape ctx =
     (if length (GetInputDim ctx ''X'') \<noteq> length (GetInputDim ctx ''Target'')
      then Inl (InvalidArgument (RankMsg (int (length (GetInputDim ctx ''X'')))
                                         (int (length (GetInputDim ctx ''Target'')))))
      else case dim_loop (IsRuntime ctx) (GetInputDim ctx ''X'') (GetInputDim ctx ''Target'') 0 of
             Inl e \<Rightarrow> Inl e
           | Inr u \<Rightarrow>
             (case Get_string (Attrs ctx) ''reduction'' of
                Inl e \<Rightarrow> Inl e
              | Inr reduction \<Rightarrow>
                  if reduction \<notin> {''mean'', ''sum'', ''batchmean'', ''none''}
                  then Inl (InvalidArgument ReductionMsg)
                  else if reduction = ''none''
                       then Inr (SetOutputDim ctx ''Loss'' (GetInputDim ctx ''X''))
                       else Inr (SetOutputDim ctx ''Loss'' [1])))"
  using assms
  by (auto simp: KLDivLossOp_InferShape_def OP_INOUT_CHECK_def Let_def split: sum.splits)

lemma InferShape_absent:
  assumes "\<not> (HasInput ctx ''X'' \<and> HasInput ctx ''Target'' \<and> HasOutput ctx ''Loss'')"
  shows "KLDivLossOp_InferShape ctx =
     Inl (if \<not> HasInput ctx ''X'' then InOutCheckFailed ''Input'' ''X'' ''KLDivLoss''
          else if \<not> HasInput ctx ''Target'' then InOutCheckFailed ''Input'' ''Target'' ''KLDivLoss''
          else InOutCheckFailed ''Output'' ''Loss'' ''KLDivLoss'')"
  using assms
  by (auto simp: KLDivLossOp_InferShape_def OP_INOUT_CHECK_def)

lemma dim_loop_error_class:
  "dim_loop rt dx dt i = Inl e \<Longrightarrow> failure_class e = ShapeMismatch"
  by (auto dest: dim_loop_error)

lemma Get_string_error_class:
  "Get_string attrs name = Inl e \<Longrightarrow> failure_class e = SchemaViolation"
  by (auto simp: Get_string_def split: option.splits attribute.splits)

lemma shape_failure_iff_loop:
  assumes "HasInput ctx ''X''" "HasInput ctx ''Target''" "HasOutput ctx ''Loss''"
    and "length (GetInputDim ctx ''X'') = length (GetInputDim ctx ''Target'')"
  shows "(\<exists>e. KLDivLossOp_InferShape ctx = Inl e \<and> failure_class e = ShapeMismatch) \<longleftrightarrow>
         dim_loop (IsRuntime ctx) (GetInputDim ctx ''X'') (GetInputDim ctx ''Target'') 0 \<noteq> Inr ()"
proof (cases "dim_loop (IsRuntime ctx) (GetInputDim ctx ''X'') (GetInputDim ctx ''Target'') 0")
  case (Inl e)
  then have "failure_class e = ShapeMismatch" by (rule dim_loop_error_class)
  with Inl assms show ?thesis by (simp add: InferShape_after_presence)
next
  case (Inr u)
  with assms show ?thesis
    by (auto simp: InferShape_after_presence split: sum.splits if_splits
             dest: Get_string_error_class)
qed

lemma loop_error_is_InferShape_error:
  assumes "HasInput ctx ''X''" "HasInput ctx ''Target''" "HasOutput ctx ''Loss''"
    and "length (GetInputDim ctx ''X'') = length (GetInputDim ctx ''Target'')"
  shows "KLDivLossOp_InferShape ctx = Inl (InvalidArgument (DimMsg i a j b)) \<longleftrightarrow>
         dim_loop (IsRuntime ctx) (GetInputDim ctx ''X'') (GetInputDim ctx ''Target'') 0
           = Inl (InvalidArgument (DimMsg i a j b))"
  using assms
  by (auto simp: InferShape_after_presence Get_string_def
           split: sum.splits if_splits option.splits attribute.splits)

lemma dim_loop_passes:
  assumes "\<forall>i<length dx. (rt \<or> (0 < dx ! i \<and> 0 < dt ! i)) \<longrightarrow> dx ! i = dt ! i"
  shows "dim_loop rt dx dt 0 = Inr ()"
  using assms by (simp add: dim_loop_ok_iff)

subsection \<open>Claims about the forward shape inference\<close>

text \<open>
  Claim C4. The ranks of X and Target are compared in every phase, at graph construction
  as well as at execution (the statement holds for either value of \<open>IsRuntime\<close>) and
  whatever the dimension sizes are, dynamic ones included: whenever the two ranks differ,
  shape inference fails with a ShapeMismatch, and on a node with its three slots bound the
  failure is the rank error carrying both ranks.
\<close>

theorem rank_checked_in_every_phase:
  assumes "length (GetInputDim ctx ''X'') \<noteq> length (GetInputDim ctx ''Target'')"
  shows "(\<exists>e. KLDivLossOp_InferShape ctx = Inl e \<and> failure_class e = ShapeMismatch) \<and>
         (HasInput ctx ''X'' \<and> HasInput ctx ''Target'' \<and> HasOutput ctx ''Loss'' \<longrightarrow>
          KLDivLossOp_InferShape ctx =
            Inl (InvalidArgument (RankMsg (int (length (GetInputDim ctx ''X'')))
                                          (int (length (GetInputDim ctx ''Target''))))))"
proof (cases "HasInput ctx ''X'' \<and> HasInput ctx ''Target'' \<and> HasOutput ctx ''Loss''")
  case True
  with assms show ?thesis by (simp add: InferShape_after_presence)
next
  case False
  then show ?thesis by (simp add: InferShape_absent)
qed

theorem rank_checked_in_every_phase_witness:
  "KLDivLossOp_InferShape (node_ctx [- 1, 10] [- 1] [''reduction'' \<mapsto> StringAttr ''mean''] False)
     = Inl (InvalidArgument (RankMsg 2 1))"
  using rank_checked_in_every_phase
          [of "node_ctx [- 1, 10] [- 1] [''reduction'' \<mapsto> StringAttr ''mean''] False"]
  by (simp add: node_ctx_def)

text \<open>
  Claim C3. On a node with its slots bound and inputs of equal rank: at graph
  construction the sizes at an index are compared only when both are positive, and shape
  inference fails with a ShapeMismatch exactly when two positive sizes at one index
  differ; at execution every pair is compared, and it fails with a ShapeMismatch exactly
  when some pair differs. A dimension error reported at construction always names two
  positive sizes, so a dynamic size is never rejected there; the error names the first
  compared index whose sizes differ, with both sizes (X [4,10] against Target [4,5]:
  index 1, sizes 10 and 5).
\<close>

theorem dimensions_checked_by_phase:
  assumes "HasInput ctx ''X''" "HasInput ctx ''Target''" "HasOutput ctx ''Loss''"
    and "length (GetInputDim ctx ''X'') = length (GetInputDim ctx ''Target'')"
  shows "(\<not> IsRuntime ctx \<longrightarrow>
            ((\<exists>e. KLDivLossOp_InferShape ctx = Inl e \<and> failure_class e = ShapeMismatch) \<longleftrightarrow>
             (\<exists>i<length (GetInputDim ctx ''X'').
                0 < GetInputDim ctx ''X'' ! i \<and> 0 < GetInputDim ctx ''Target'' ! i \<and>
                GetInputDim ctx ''X'' ! i \<noteq> GetInputDim ctx ''Target'' ! i))) \<and>
         (IsRuntime ctx \<longrightarrow>
            ((\<exists>e. KLDivLossOp_InferShape ctx = Inl e \<and> failure_class e = ShapeMismatch) \<longleftrightarrow>
             (\<exists>i<length (GetInputDim ctx ''X'').
                GetInputDim ctx ''X'' ! i \<noteq> GetInputDim ctx ''Target'' ! i))) \<and>
         (\<forall>i a j b. \<not> IsRuntime ctx \<and>
                    KLDivLossOp_InferShape ctx = Inl (InvalidArgument (DimMsg i a j b)) \<longrightarrow>
                    0 < a \<and> 0 < b) \<and>
         (\<forall>i a j b. KLDivLossOp_InferShape ctx = Inl (InvalidArgument (DimMsg i a j b)) \<longrightarrow>
                    0 \<le> i \<and> j = i \<and> nat i < length (GetInputDim ctx ''X'') \<and>
                    a = GetInputDim ctx ''X'' ! nat i \<and>
                    b = GetInputDim ctx ''Target'' ! nat i \<and> a \<noteq> b) \<and>
         (\<forall>i<length (GetInputDim ctx ''X'').
            (IsRuntime ctx \<or> (0 < GetInputDim ctx ''X'' ! i \<and> 0 < GetInputDim ctx ''Target'' ! i)) \<and>
            GetInputDim ctx ''X'' ! i \<noteq> GetInputDim ctx ''Target'' ! i \<and>
            (\<forall>k<i. (IsRuntime ctx \<or>
                     (0 < GetInputDim ctx ''X'' ! k \<and> 0 < GetInputDim ctx ''Target'' ! k)) \<longrightarrow>
                    GetInputDim ctx ''X'' ! k = GetInputDim ctx ''Target'' ! k) \<longrightarrow>
            KLDivLossOp_InferShape ctx =
              Inl (InvalidArgument (DimMsg (int i) (GetInputDim ctx ''X'' ! i)
                                           (int i) (GetInputDim ctx ''Target'' ! i))))"
  (is "?construction \<and> ?execution \<and> ?positive \<and> ?reported \<and> ?first")
proof -
  let ?dx = "GetInputDim ctx ''X''" and ?dt = "GetInputDim ctx ''Target''"
  note fails = shape_failure_iff_loop [OF assms]
  note same = loop_error_is_InferShape_error [OF assms]
  have ?construction
    unfolding fails by (auto simp: dim_loop_ok_iff)
  moreover have ?execution
    unfolding fails by (auto simp: dim_loop_ok_iff)
  moreover have ?reported
  proof (intro allI impI)
    fix i a j b
    assume "KLDivLossOp_InferShape ctx = Inl (InvalidArgument (DimMsg i a j b))"
    then have "dim_loop (IsRuntime ctx) ?dx ?dt 0 = Inl (InvalidArgument (DimMsg i a j b))"
      by (simp add: same)
    from dim_loop_error [OF this]
    show "0 \<le> i \<and> j = i \<and> nat i < length ?dx \<and> a = ?dx ! nat i \<and> b = ?dt ! nat i \<and> a \<noteq> b"
      by auto
  qed
  moreover have ?positive
  proof (intro allI impI)
    fix i a j b
    assume "\<not> IsRuntime ctx \<and> KLDivLossOp_InferShape ctx = Inl (InvalidArgument (DimMsg i a j b))"
    then have "dim_loop False ?dx ?dt 0 = Inl (InvalidArgument (DimMsg i a j b))"
      by (auto simp: same)
    from dim_loop_error [OF this] show "0 < a \<and> 0 < b" by auto
  qed
  moreover have ?first
  proof (intro allI impI)
    fix i
    assume "i < length ?dx"
      and "(IsRuntime ctx \<or> (0 < ?dx ! i \<and> 0 < ?dt ! i)) \<and> ?dx ! i \<noteq> ?dt ! i \<and>
           (\<forall>k<i. (IsRuntime ctx \<or> (0 < ?dx ! k \<and> 0 < ?dt ! k)) \<longrightarrow> ?dx ! k = ?dt ! k)"
    then have "dim_loop (IsRuntime ctx) ?dx ?dt 0 =
                 Inl (InvalidArgument (DimMsg (int i) (?dx ! i) (int i) (?dt ! i)))"
      by (intro dim_loop_first_mismatch) auto
    then show "KLDivLossOp_InferShape ctx =
                 Inl (InvalidArgument (DimMsg (int i) (?dx ! i) (int i) (?dt ! i)))"
      by (simp add: same)
  qed
  ultimately show ?thesis by blast
qed

theorem dimensions_checked_by_phase_witness:
  "KLDivLossOp_InferShape (node_ctx [4, 10] [4, 5] [''reduction'' \<mapsto> StringAttr ''mean''] False)
     = Inl (InvalidArgument (DimMsg 1 10 1 5)) \<and>
   \<not> (\<exists>e. KLDivLossOp_InferShape
             (node_ctx [- 1, 10] [4, 10] [''reduction'' \<mapsto> StringAttr ''mean''] False) = Inl e \<and>
           failure_class e = ShapeMismatch) \<and>
   (\<exists>e. KLDivLossOp_InferShape
          (node_ctx [- 1, 10] [4, 10] [''reduction'' \<mapsto> StringAttr ''mean''] True) = Inl e \<and>
        failure_class e = ShapeMismatch)"
proof -
  let ?attrs = "[''reduction'' \<mapsto> StringAttr ''mean'']"
  have "KLDivLossOp_InferShape (node_ctx [4, 10] [4, 5] ?attrs False)
          = Inl (InvalidArgument (DimMsg 1 10 1 5))"
    using dimensions_checked_by_phase [of "node_ctx [4, 10] [4, 5] ?attrs False",
            THEN conjunct2, THEN conjunct2, THEN conjunct2, THEN conjunct2]
    by (simp add: node_ctx_def All_less_Suc)
  moreover
  have "\<not> (\<exists>e. KLDivLossOp_InferShape (node_ctx [- 1, 10] [4, 10] ?attrs False) = Inl e \<and>
              failure_class e = ShapeMismatch)"
    using dimensions_checked_by_phase [of "node_ctx [- 1, 10] [4, 10] ?attrs False",
            THEN conjunct1]
    by (simp add: node_ctx_def Ex_less_Suc)
  moreover
  have "\<exists>e. KLDivLossOp_InferShape (node_ctx [- 1, 10] [4, 10] ?attrs True) = Inl e \<and>
            failure_class e = ShapeMismatch"
    using dimensions_checked_by_phase [of "node_ctx [- 1, 10] [4, 10] ?attrs True",
            THEN conjunct2, THEN conjunct1]
    by (simp add: node_ctx_def Ex_less_Suc)
  ultimately show ?thesis by blast
qed

text \<open>
  Claim C1. On a node whose slots are bound and whose inputs pass the rank check and the
  dimension loop, shape inference succeeds and sets the shape of Loss to the shape of X
  when reduction is "none", and to [1] when reduction is "mean", "sum" or "batchmean";
  nothing else of the context changes. X of shape [4,10] gives Loss the shape [4,10]
  under "none" and [1] under "mean".
\<close>

theorem output_shape_follows_reduction:
  assumes "HasInput ctx ''X''" "HasInput ctx ''Target''" "HasOutput ctx ''Loss''"
    and "length (GetInputDim ctx ''X'') = length (GetInputDim ctx ''Target'')"
    and "\<forall>i<length (GetInputDim ctx ''X'').
           (IsRuntime ctx \<or> (0 < GetInputDim ctx ''X'' ! i \<and> 0 < GetInputDim ctx ''Target'' ! i)) \<longrightarrow>
           GetInputDim ctx ''X'' ! i = GetInputDim ctx ''Target'' ! i"
    and "Attrs ctx ''reduction'' = Some (StringAttr reduction)"
    and "reduction \<in> {''none'', ''mean'', ''sum'', ''batchmean''}"
  shows "\<exists>ctx'. KLDivLossOp_InferShape ctx = Inr ctx' \<and>
           OutputDim ctx' ''Loss'' =
             Some (if reduction = ''none'' then GetInputDim ctx ''X'' else [1]) \<and>
           ctx' = SetOutputDim ctx ''Loss''
                    (if reduction = ''none'' then GetInputDim ctx ''X'' else [1])"
proof -
  have "dim_loop (IsRuntime ctx) (GetInputDim ctx ''X'') (GetInputDim ctx ''Target'') 0 = Inr ()"
    using assms(5) by (rule dim_loop_passes)
  moreover have "Get_string (Attrs ctx) ''reduction'' = Inr reduction"
    using assms(6) by (simp add: Get_string_def)
  ultimately show ?thesis
    using assms(1-4,7) by (auto simp: InferShape_after_presence SetOutputDim_def)
qed

theorem output_shape_follows_reduction_witness:
  "(\<exists>ctx'. KLDivLossOp_InferShape
             (node_ctx [4, 10] [4, 10] [''reduction'' \<mapsto> StringAttr ''none''] False) = Inr ctx' \<and>
           OutputDim ctx' ''Loss'' = Some [4, 10]) \<and>
   (\<exists>ctx'. KLDivLossOp_InferShape
             (node_ctx [4, 10] [4, 10] [''reduction'' \<mapsto> StringAttr ''mean''] False) = Inr ctx' \<and>
           OutputDim ctx' ''Loss'' = Some [1])"
proof -
  have "\<exists>ctx'. KLDivLossOp_InferShape
             (node_ctx [4, 10] [4, 10] [''reduction'' \<mapsto> StringAttr ''none''] False) = Inr ctx' \<and>
           OutputDim ctx' ''Loss'' = Some [4, 10]"
    using output_shape_follows_reduction
            [of "node_ctx [4, 10] [4, 10] [''reduction'' \<mapsto> StringAttr ''none''] False" "''none''"]
    by (simp add: node_ctx_def)
  moreover
  have "\<exists>ctx'. KLDivLossOp_InferShape
             (node_ctx [4, 10] [4, 10] [''reduction'' \<mapsto> StringAttr ''mean''] False) = Inr ctx' \<and>
           OutputDim ctx' ''Loss'' = Some [1]"
    using output_shape_follows_reduction
            [of "node_ctx [4, 10] [4, 10] [''reduction'' \<mapsto> StringAttr ''mean''] False" "''mean''"]
    by (simp add: node_ctx_def)
  ultimately show ?thesis by blast
qed

text \<open>
  Claim C5, as stated, fails: a node whose reduction is outside the valid set is not
  always rejected with a SchemaViolation. The reduction is read only after the shape
  checks, so with X [4,10], Target [4,5] and reduction "invalid\_value" the failure is the
  dimension error at index 1, a ShapeMismatch.
\<close>

theorem invalid_reduction_counterexample:
  "''invalid_value'' \<notin> {''none'', ''mean'', ''sum'', ''batchmean''} \<and>
   KLDivLossOp_InferShape
     (node_ctx [4, 10] [4, 5] [''reduction'' \<mapsto> StringAttr ''invalid_value''] False)
     = Inl (InvalidArgument (DimMsg 1 10 1 5)) \<and>
   failure_class (InvalidArgument (DimMsg 1 10 1 5)) \<noteq> SchemaViolation"
  by (simp add: KLDivLossOp_InferShape_def node_ctx_def OP_INOUT_CHECK_def dim_loop.simps)

text \<open>
  Claim C5, amended. A node whose reduction attribute is a string outside
  \{"none", "mean", "sum", "batchmean"\} is always rejected by shape inference, in either
  phase and so already at graph construction; when its slots are bound and its inputs
  pass the rank check and the dimension loop, the failure is the reduction error, a
  SchemaViolation.
\<close>

theorem invalid_reduction_rejected:
  assumes "Attrs ctx ''reduction'' = Some (StringAttr reduction)"
    and "reduction \<notin> {''none'', ''mean'', ''sum'', ''batchmean''}"
  shows "(\<exists>e. KLDivLossOp_InferShape ctx = Inl e) \<and>
         (HasInput ctx ''X'' \<and> HasInput ctx ''Target'' \<and> HasOutput ctx ''Loss'' \<and>
          length (GetInputDim ctx ''X'') = length (GetInputDim ctx ''Target'') \<and>
          (\<forall>i<length (GetInputDim ctx ''X'').
             (IsRuntime ctx \<or>
              (0 < GetInputDim ctx ''X'' ! i \<and> 0 < GetInputDim ctx ''Target'' ! i)) \<longrightarrow>
             GetInputDim ctx ''X'' ! i = GetInputDim ctx ''Target'' ! i) \<longrightarrow>
          KLDivLossOp_InferShape ctx = Inl (InvalidArgument ReductionMsg) \<and>
          failure_class (InvalidArgument ReductionMsg) = SchemaViolation)"
proof -
  have attr: "Get_string (Attrs ctx) ''reduction'' = Inr reduction"
    using assms(1) by (simp add: Get_string_def)
  have "\<exists>e. KLDivLossOp_InferShape ctx = Inl e"
  proof (cases "HasInput ctx ''X'' \<and> HasInput ctx ''Target'' \<and> HasOutput ctx ''Loss''")
    case True
    with attr assms(2) show ?thesis
      by (auto simp: InferShape_after_presence split: sum.splits)
  next
    case False
    then show ?thesis by (simp add: InferShape_absent)
  qed
  moreover
  have "KLDivLossOp_InferShape ctx = Inl (InvalidArgument ReductionMsg)"
    if "HasInput ctx ''X''" "HasInput ctx ''Target''" "HasOutput ctx ''Loss''"
      and "length (GetInputDim ctx ''X'') = length (GetInputDim ctx ''Target'')"
      and "\<forall>i<length (GetInputDim ctx ''X'').
             (IsRuntime ctx \<or>
              (0 < GetInputDim ctx ''X'' ! i \<and> 0 < GetInputDim ctx ''Target'' ! i)) \<longrightarrow>
             GetInputDim ctx ''X'' ! i = GetInputDim ctx ''Target'' ! i"
  proof -
    have "dim_loop (IsRuntime ctx) (GetInputDim ctx ''X'') (GetInputDim ctx ''Target'') 0 = Inr ()"
      using that(5) by (rule dim_loop_passes)
    with attr assms(2) that(1-4) show ?thesis
      by (auto simp: InferShape_after_presence)
  qed
  ultimately show ?thesis by simp
qed

theorem invalid_reduction_rejected_witness:
  "KLDivLossOp_InferShape
     (node_ctx [4, 10] [4, 10] [''reduction'' \<mapsto> StringAttr ''invalid_value''] False)
     = Inl (InvalidArgument ReductionMsg) \<and>
   (\<exists>e. KLDivLossOp_InferShape
          (node_ctx [4, 10] [4, 5] [''reduction'' \<mapsto> StringAttr ''invalid_value''] False) = Inl e)"
proof -
  have "KLDivLossOp_InferShape
     (node_ctx [4, 10] [4, 10] [''reduction'' \<mapsto> StringAttr ''invalid_value''] False)
     = Inl (InvalidArgument ReductionMsg)"
    using invalid_reduction_rejected
      [of "node_ctx [4, 10] [4, 10] [''reduction'' \<mapsto> StringAttr ''invalid_value''] False"
          "''invalid_value''", THEN conjunct2]
    by (simp add: node_ctx_def All_less_Suc)
  moreover
  have "\<exists>e. KLDivLossOp_InferShape
          (node_ctx [4, 10] [4, 5] [''reduction'' \<mapsto> StringAttr ''invalid_value''] False) = Inl e"
    using invalid_reduction_rejected
      [of "node_ctx [4, 10] [4, 5] [''reduction'' \<mapsto> StringAttr ''invalid_value''] False"
          "''invalid_value''", THEN conjunct1]
    by (simp add: node_ctx_def)
  ultimately show ?thesis by blast
qed

text \<open>
  Claim C8. When X, Target or Loss is absent from the context, shape inference fails with
  the slot check of the first absent one, a ShapeMismatch, and the failure is the same
  whatever the shapes, the phase and the attributes are: nothing of them is read. When
  the three slots are present, no slot check fails.
\<close>

theorem absent_slot_fails_before_shapes:
  "(\<not> HasInput ctx ''X'' \<longrightarrow>
      KLDivLossOp_InferShape ctx = Inl (InOutCheckFailed ''Input'' ''X'' ''KLDivLoss'')) \<and>
   (HasInput ctx ''X'' \<and> \<not> HasInput ctx ''Target'' \<longrightarrow>
      KLDivLossOp_InferShape ctx = Inl (InOutCheckFailed ''Input'' ''Target'' ''KLDivLoss'')) \<and>
   (HasInput ctx ''X'' \<and> HasInput ctx ''Target'' \<and> \<not> HasOutput ctx ''Loss'' \<longrightarrow>
      KLDivLossOp_InferShape ctx = Inl (InOutCheckFailed ''Output'' ''Loss'' ''KLDivLoss'')) \<and>
   (\<not> (HasInput ctx ''X'' \<and> HasInput ctx ''Target'' \<and> HasOutput ctx ''Loss'') \<longrightarrow>
      (\<exists>e. KLDivLossOp_InferShape ctx = Inl e \<and> failure_class e = ShapeMismatch \<and>
           (\<forall>dims runtime attrs.
              KLDivLossOp_InferShape
                (ctx\<lparr>GetInputDim := dims, IsRuntime := runtime, Attrs := attrs\<rparr>) = Inl e))) \<and>
   (HasInput ctx ''X'' \<and> HasInput ctx ''Target'' \<and> HasOutput ctx ''Loss'' \<longrightarrow>
      (\<forall>role name op. KLDivLossOp_InferShape ctx \<noteq> Inl (InOutCheckFailed role name op)))"
  (is "?x \<and> ?target \<and> ?loss \<and> ?early \<and> ?pass")
proof -
  have ?x and ?target and ?loss
    by (simp_all add: InferShape_absent)
  moreover have ?early
    by (auto simp: InferShape_absent)
  moreover have ?pass
    by (auto simp: InferShape_after_presence Get_string_def
             split: sum.splits if_splits option.splits attribute.splits
             dest: dim_loop_error)
  ultimately show ?thesis by blast
qed

theorem absent_slot_fails_before_shapes_witness:
  "KLDivLossOp_InferShape
     ((node_ctx [4, 10] [4, 10] [''reduction'' \<mapsto> StringAttr ''mean''] False)
        \<lparr>HasInput := (\<lambda>n. n = ''X'')\<rparr>)
     = Inl (InOutCheckFailed ''Input'' ''Target'' ''KLDivLoss'') \<and>
   KLDivLossOp_InferShape (node_ctx [4, 10] [4, 10] [''reduction'' \<mapsto> StringAttr ''mean''] False)
     \<noteq> Inl (InOutCheckFailed ''Input'' ''Target'' ''KLDivLoss'')"
proof -
  let ?ctx = "node_ctx [4, 10] [4, 10] [''reduction'' \<mapsto> StringAttr ''mean''] False"
  have "KLDivLossOp_InferShape (?ctx\<lparr>HasInput := (\<lambda>n. n = ''X'')\<rparr>)
          = Inl (InOutCheckFailed ''Input'' ''Target'' ''KLDivLoss'')"
    using absent_slot_fails_before_shapes
            [of "?ctx\<lparr>HasInput := (\<lambda>n. n = ''X'')\<rparr>", THEN conjunct2, THEN conjunct1]
    by (simp add: node_ctx_def)
  moreover
  have "KLDivLossOp_InferShape ?ctx \<noteq> Inl (InOutCheckFailed ''Input'' ''Target'' ''KLDivLoss'')"
    using absent_slot_fails_before_shapes
            [of ?ctx, THEN conjunct2, THEN conjunct2, THEN conjunct2, THEN conjunct2]
    by (simp add: node_ctx_def)
  ultimately show ?thesis by blast
qed

subsection \<open>Claims about the backward shape inference and the kernel types\<close>

text \<open>
  Claim C9. On a backward node with X, Target and Loss@GRAD present, the output X@GRAD
  is optional: when it is present, shape inference succeeds and sets its shape to the
  shape of X; when it is absent, shape inference succeeds as well and leaves the context
  as it was, so no output shape is written.
\<close>

theorem grad_output_optional:
  assumes "HasInput ctx ''X''" "HasInput ctx ''Target''" "HasInput ctx ''Loss@GRAD''"
  shows "(HasOutput ctx ''X@GRAD'' \<longrightarrow>
            (\<exists>ctx'. KLDivLossOpGrad_InferShape ctx = Inr ctx' \<and>
                    OutputDim ctx' ''X@GRAD'' = Some (GetInputDim ctx ''X'') \<and>
                    ctx' = SetOutputDim ctx ''X@GRAD'' (GetInputDim ctx ''X''))) \<and>
         (\<not> HasOutput ctx ''X@GRAD'' \<longrightarrow> KLDivLossOpGrad_InferShape ctx = Inr ctx)"
  using assms
  by (simp add: KLDivLossOpGrad_InferShape_def OP_INOUT_CHECK_def GradVarName_def
                SetOutputDim_def)

theorem grad_output_optional_witness:
  "(\<exists>ctx'. KLDivLossOpGrad_InferShape (grad_node_ctx [4, 10] True) = Inr ctx' \<and>
           OutputDim ctx' ''X@GRAD'' = Some [4, 10]) \<and>
   KLDivLossOpGrad_InferShape (grad_node_ctx [4, 10] False) = Inr (grad_node_ctx [4, 10] False)"
proof -
  have "\<exists>ctx'. KLDivLossOpGrad_InferShape (grad_node_ctx [4, 10] True) = Inr ctx' \<and>
           OutputDim ctx' ''X@GRAD'' = Some [4, 10]"
    using grad_output_optional [of "grad_node_ctx [4, 10] True", THEN conjunct1]
    by (simp add: grad_node_ctx_def)
  moreover
  have "KLDivLossOpGrad_InferShape (grad_node_ctx [4, 10] False) = Inr (grad_node_ctx [4, 10] False)"
    using grad_output_optional [of "grad_node_ctx [4, 10] False", THEN conjunct2]
    by (simp add: grad_node_ctx_def)
  ultimately show ?thesis by blast
qed

text \<open>
  Claim C10. The kernel type of the backward operator pairs the data type of Loss@GRAD
  with the place of the execution context. Two executions on the same place that agree
  on the data type of Loss@GRAD get the same kernel type and the same kernel key,
  whatever the data types of X and Target are.
\<close>

theorem grad_kernel_type_from_loss_grad:
  "KLDivLossOpGrad_GetExpectedKernelType ctx =
     \<lparr>kernel_data_type = IndicateVarDataType ctx ''Loss@GRAD'', kernel_place = GetPlace ctx\<rparr> \<and>
   (\<forall>ctx'. GetPlace ctx' = GetPlace ctx \<and>
           IndicateVarDataType ctx' ''Loss@GRAD'' = IndicateVarDataType ctx ''Loss@GRAD'' \<longrightarrow>
           KLDivLossOpGrad_GetExpectedKernelType ctx' = KLDivLossOpGrad_GetExpectedKernelType ctx \<and>
           KernelKey_of ''kldiv_loss_grad'' (KLDivLossOpGrad_GetExpectedKernelType ctx') =
           KernelKey_of ''kldiv_loss_grad'' (KLDivLossOpGrad_GetExpectedKernelType ctx))"
  by (simp add: KLDivLossOpGrad_GetExpectedKernelType_def GradVarName_def)

theorem grad_kernel_type_from_loss_grad_witness:
  "IndicateVarDataType (exec_ctx CPUPlace FP64 FP32) ''X'' \<noteq>
   IndicateVarDataType (exec_ctx CPUPlace FP32 FP32) ''X'' \<and>
   KLDivLossOpGrad_GetExpectedKernelType (exec_ctx CPUPlace FP64 FP32) =
   KLDivLossOpGrad_GetExpectedKernelType (exec_ctx CPUPlace FP32 FP32) \<and>
   KLDivLossOpGrad_GetExpectedKernelType (exec_ctx CPUPlace FP64 FP32) =
     \<lparr>kernel_data_type = FP32, kernel_place = CPUPlace\<rparr>"
proof -
  have "KLDivLossOpGrad_GetExpectedKernelType (exec_ctx CPUPlace FP64 FP32) =
        KLDivLossOpGrad_GetExpectedKernelType (exec_ctx CPUPlace FP32 FP32)"
    using grad_kernel_type_from_loss_grad
            [of "exec_ctx CPUPlace FP32 FP32", THEN conjunct2, rule_format,
             of "exec_ctx CPUPlace FP64 FP32"]
    by (simp add: exec_ctx_def)
  moreover
  have "KLDivLossOpGrad_GetExpectedKernelType (exec_ctx CPUPlace FP64 FP32) =
          \<lparr>kernel_data_type = FP32, kernel_place = CPUPlace\<rparr>"
    using grad_kernel_type_from_loss_grad [of "exec_ctx CPUPlace FP64 FP32", THEN conjunct1]
    by (simp add: exec_ctx_def)
  ultimately show ?thesis by (simp add: exec_ctx_def)
qed

subsection \<open>The registered kernels\<close>

lemma AllOpKernels_table:
  "AllOpKernels =
     [((''kldiv_loss'', CPUPlace, FP32), KLDivLossKernel CPUDeviceContext float),
      ((''kldiv_loss'', CPUPlace, FP64), KLDivLossKernel CPUDeviceContext double),
      ((''kldiv_loss_grad'', CPUPlace, FP32), KLDivLossGradKernel CPUDeviceContext float),
      ((''kldiv_loss_grad'', CPUPlace, FP64), KLDivLossGradKernel CPUDeviceContext double)]"
  by (simp add: AllOpKernels_def REGISTER_OP_CPU_KERNEL_def)

lemma dispatch_kldiv_loss_cases:
  "dispatch ''kldiv_loss'' \<lparr>kernel_data_type = t, kernel_place = p\<rparr> =
     (if p = CPUPlace \<and> t = FP32 then Inr (KLDivLossKernel CPUDeviceContext float)
      else if p = CPUPlace \<and> t = FP64 then Inr (KLDivLossKernel CPUDeviceContext double)
      else Inl NoKernelFound)"
  by (auto simp: dispatch_def KernelKey_of_def AllOpKernels_table)

text \<open>
  Claim C6. The key under which the kernel of a forward node is looked up is the operator
  type, the place of the execution context and the data type of X. On the CPU with X of
  type float32 the kernel registered for that key is found. With X of type float16 the
  lookup fails with NoKernelFound on every place, although a float32 kernel is there: no
  other device and no other type is tried. The lookup fails exactly when the request is
  not for the CPU with float32 or float64, the only two keys the operator file registers
  for the operator.
\<close>

theorem forward_dispatch_by_place_and_X:
  "KernelKey_of ''kldiv_loss'' (KLDivLossOp_GetExpectedKernelType ctx) =
     (''kldiv_loss'', GetPlace ctx, IndicateVarDataType ctx ''X'') \<and>
   (GetPlace ctx = CPUPlace \<and> IndicateVarDataType ctx ''X'' = FP32 \<longrightarrow>
      dispatch_kldiv_loss ctx = Inr (KLDivLossKernel CPUDeviceContext float)) \<and>
   (IndicateVarDataType ctx ''X'' = FP16 \<longrightarrow> dispatch_kldiv_loss ctx = Inl NoKernelFound) \<and>
   (dispatch_kldiv_loss ctx = Inl NoKernelFound \<longleftrightarrow>
      \<not> (GetPlace ctx = CPUPlace \<and> IndicateVarDataType ctx ''X'' \<in> {FP32, FP64})) \<and>
   [k \<leftarrow> map fst AllOpKernels. fst k = ''kldiv_loss''] =
     [(''kldiv_loss'', CPUPlace, FP32), (''kldiv_loss'', CPUPlace, FP64)]"
  by (auto simp: dispatch_kldiv_loss_def KLDivLossOp_GetExpectedKernelType_def
                 dispatch_kldiv_loss_cases KernelKey_of_def AllOpKernels_table)

theorem forward_dispatch_by_place_and_X_witness:
  "dispatch_kldiv_loss (exec_ctx CPUPlace FP32 FP32) = Inr (KLDivLossKernel CPUDeviceContext float) \<and>
   dispatch_kldiv_loss (exec_ctx CPUPlace FP16 FP32) = Inl NoKernelFound"
proof -
  have "dispatch_kldiv_loss (exec_ctx CPUPlace FP32 FP32)
          = Inr (KLDivLossKernel CPUDeviceContext float)"
    using forward_dispatch_by_place_and_X
            [of "exec_ctx CPUPlace FP32 FP32", THEN conjunct2, THEN conjunct1]
    by (simp add: exec_ctx_def)
  moreover
  have "dispatch_kldiv_loss (exec_ctx CPUPlace FP16 FP32) = Inl NoKernelFound"
    using forward_dispatch_by_place_and_X
            [of "exec_ctx CPUPlace FP16 FP32", THEN conjunct2, THEN conjunct2, THEN conjunct1]
    by (simp add: exec_ctx_def)
  ultimately show ?thesis by blast
qed

subsection \<open>Claims about the gradient maker\<close>

text \<open>What \<^verbatim>\<open>Apply\<close> leaves in each field of the operator it fills.\<close>

lemma Apply_fields:
  "Type (KLDivLossOpGradMaker_Apply this op) = ''kldiv_loss_grad''"
  "Inputs (KLDivLossOpGradMaker_Apply this op) =
     (Inputs op)(''X'' \<mapsto> Input this ''X'', ''Target'' \<mapsto> Input this ''Target'',
                 ''Loss@GRAD'' \<mapsto> OutputGrad this ''Loss'')"
  "Outputs (KLDivLossOpGradMaker_Apply this op) =
     (Outputs op)(''X@GRAD'' \<mapsto> InputGrad this ''X'')"
  "AttrMap (KLDivLossOpGradMaker_Apply this op) = ForwardAttrs this"
  by (simp_all add: KLDivLossOpGradMaker_Apply_def SetType_def SetInput_def SetOutput_def
                    SetAttrMap_def GradVarName_def)

text \<open>
  Claim C2, as stated, fails in its last part: the variable declared no-need-buffer for
  the backward operator is X, and Target is not.
\<close>

theorem backward_node_no_need_buffer_counterexample:
  "map Type (buildGradient (forward_node [''reduction'' \<mapsto> StringAttr ''mean''])
                           [''Loss'' \<mapsto> ''Loss@GRAD'']) = [''kldiv_loss_grad''] \<and>
   ''Target'' \<notin> NoNeedBufferVars ''kldiv_loss_grad'' \<and>
   ''X'' \<in> NoNeedBufferVars ''kldiv_loss_grad''"
  by (simp add: buildGradient_def KLDivLossOpGradMaker_Apply_def SetType_def SetInput_def
                SetOutput_def SetAttrMap_def NoNeedBufferVars_def
                KLDivLossGradNoNeedBufferVarInference_def)

text \<open>
  Claim C2, amended. Building the gradient of a forward node with the gradient of Loss
  named "Loss@GRAD" gives exactly one backward node, of type "kldiv\_loss\_grad"; its
  input slots are X, Target and Loss@GRAD, bound to the forward node's X, the forward
  node's Target and "Loss@GRAD"; its only output slot is X@GRAD, bound to the gradient
  names of the forward X, and Target gets no gradient output; X is the variable marked
  no-need-buffer for the backward node.
\<close>

theorem backward_node_wiring:
  assumes "outputGradientNames ''Loss'' = Some ''Loss@GRAD''"
  shows "\<exists>g. buildGradient fwd outputGradientNames = [g] \<and>
           Type g = ''kldiv_loss_grad'' \<and>
           dom (Inputs g) = {''X'', ''Target'', ''Loss@GRAD''} \<and>
           Inputs g ''X'' = Some (slot_args (Inputs fwd) ''X'') \<and>
           Inputs g ''Target'' = Some (slot_args (Inputs fwd) ''Target'') \<and>
           Inputs g ''Loss@GRAD'' = Some [''Loss@GRAD''] \<and>
           dom (Outputs g) = {''X@GRAD''} \<and>
           Outputs g ''X@GRAD'' = Some (map GradVarName (slot_args (Inputs fwd) ''X'')) \<and>
           Outputs g ''Target@GRAD'' = None \<and>
           NoNeedBufferVars (Type g) = {''X''}"
  using assms
  by (auto simp: buildGradient_def Apply_fields maker_of_def new_op_def NoNeedBufferVars_def
                 KLDivLossGradNoNeedBufferVarInference_def)

theorem backward_node_wiring_witness:
  "\<exists>g. buildGradient (forward_node [''reduction'' \<mapsto> StringAttr ''mean''])
                      [''Loss'' \<mapsto> ''Loss@GRAD''] = [g] \<and>
       Type g = ''kldiv_loss_grad'' \<and>
       dom (Inputs g) = {''X'', ''Target'', ''Loss@GRAD''} \<and>
       Inputs g ''X'' = Some [''X''] \<and>
       Inputs g ''Target'' = Some [''Target''] \<and>
       Inputs g ''Loss@GRAD'' = Some [''Loss@GRAD''] \<and>
       dom (Outputs g) = {''X@GRAD''} \<and>
       Outputs g ''X@GRAD'' = Some [''X@GRAD''] \<and>
       Outputs g ''Target@GRAD'' = None \<and>
       NoNeedBufferVars (Type g) = {''X''}"
  using backward_node_wiring
          [of "[''Loss'' \<mapsto> ''Loss@GRAD'']" "forward_node [''reduction'' \<mapsto> StringAttr ''mean'']"]
  by (simp add: forward_node_def slot_args_def GradVarName_def)

text \<open>
  Claim C7. The attribute map of the backward node is the attribute map of the forward
  node: \<^verbatim>\<open>Apply\<close> installs the forward attributes as a whole, and the setters called
  before and after it leave them alone.
\<close>

theorem backward_attributes_copied:
  "map AttrMap (buildGradient fwd outputGradientNames) = [AttrMap fwd] \<and>
   AttrMap (KLDivLossOpGradMaker_Apply this op) = ForwardAttrs this"
  by (simp add: buildGradient_def Apply_fields maker_of_def)

theorem backward_attributes_copied_witness:
  "map (\<lambda>g. AttrMap g ''reduction'')
       (buildGradient (forward_node [''reduction'' \<mapsto> StringAttr ''batchmean''])
                      [''Loss'' \<mapsto> ''Loss@GRAD'']) = [Some (StringAttr ''batchmean'')]"
proof -
  have "map AttrMap (buildGradient (forward_node [''reduction'' \<mapsto> StringAttr ''batchmean''])
                      [''Loss'' \<mapsto> ''Loss@GRAD''])
        = [AttrMap (forward_node [''reduction'' \<mapsto> StringAttr ''batchmean''])]"
    using backward_attributes_copied
            [of "forward_node [''reduction'' \<mapsto> StringAttr ''batchmean'']"
                "[''Loss'' \<mapsto> ''Loss@GRAD'']"]
    by simp
  then have "map (\<lambda>g. AttrMap g ''reduction'')
       (buildGradient (forward_node [''reduction'' \<mapsto> StringAttr ''batchmean''])
                      [''Loss'' \<mapsto> ''Loss@GRAD''])
       = [AttrMap (forward_node [''reduction'' \<mapsto> StringAttr ''batchmean'']) ''reduction'']"
    by (simp add: list_eq_iff_nth_eq)
  then show ?thesis by (simp add: forward_node_def)
qed

end
